theory Spec2Isabelle
  imports Main "HOL-Library.AList"
begin

section \<open>Python values\<close>

text \<open>
  The adapter shuffles JSON-like Python values: the encoded history is a list of dicts
  whose values are strings and nested dicts. A dict is an association list with string
  keys; a Python dict never holds a key twice, so the lists of interest have distinct keys.
\<close>

datatype pyval =
    PNone
  | PBool bool
  | PInt int
  | PStr string
  | PList "pyval list"
  | PDict "(string \<times> pyval) list"

type_synonym pydict = "(string \<times> pyval) list"

text \<open>\<open>d.get(k, default)\<close> on a dict.\<close>

definition dict_get :: "pydict \<Rightarrow> string \<Rightarrow> pyval \<Rightarrow> pyval" where
  "dict_get d k dflt = (case map_of d k of None \<Rightarrow> dflt | Some v \<Rightarrow> v)"

text \<open>
  Exceptions are instances of \<open>Exception\<close>, which is what every handler of the adapter
  catches. The constructor is the class the handlers can tell apart (an instance of a
  subclass counts as its base class); the argument is \<open>str(e)\<close>.
\<close>

datatype exn =
    RuntimeError string
  | TimeoutError string
  | AttributeError string
  | Exception string

fun str_exn :: "exn \<Rightarrow> string" where
  "str_exn (RuntimeError m) = m"
| "str_exn (TimeoutError m) = m"
| "str_exn (AttributeError m) = m"
| "str_exn (Exception m) = m"

fun type_name :: "pyval \<Rightarrow> string" where
  "type_name PNone = ''NoneType''"
| "type_name (PBool _) = ''bool''"
| "type_name (PInt _) = ''int''"
| "type_name (PStr _) = ''str''"
| "type_name (PList _) = ''list''"
| "type_name (PDict _) = ''dict''"

text \<open>
  \<open>v.get(k, default)\<close> on an arbitrary value: only a dict has the method, every other
  value raises AttributeError.
\<close>

definition py_get :: "pyval \<Rightarrow> string \<Rightarrow> pyval \<Rightarrow> exn + pyval" where
  "py_get v k dflt =
     (case v of
        PDict d \<Rightarrow> Inr (dict_get d k dflt)
      | _ \<Rightarrow> Inl (AttributeError
                 ([CHR 0x27] @ type_name v @ [CHR 0x27] @ '' object has no attribute ''
                  @ [CHR 0x27] @ ''get'' @ [CHR 0x27])))"

section \<open>Message records\<close>

text \<open>
  The message classes of \<open>langchain.schema\<close>, each with its \<open>content\<close> and its
  \<open>additional_kwargs\<close> (the selectors \<open>msg_content\<close> and \<open>msg_additional_kwargs\<close>). \<open>HumanMessage\<close> and \<open>AIMessage\<close> are the two classes the adapter
  tests for; \<open>OtherMessage\<close> is any other subclass of \<open>BaseMessage\<close>, tagged with its
  class name. The constructors store what they are given.
\<close>

datatype message =
    HumanMessage (msg_content: pyval) (msg_additional_kwargs: pyval)
  | AIMessage (msg_content: pyval) (msg_additional_kwargs: pyval)
  | OtherMessage (class_name: string) (msg_content: pyval) (msg_additional_kwargs: pyval)

section \<open>History codec\<close>

text \<open>The role tag chosen by the \<open>isinstance\<close> chain of \<open>_serialize_history\<close>.\<close>

fun role_of :: "message \<Rightarrow> string" where
  "role_of (HumanMessage _ _) = ''user''"
| "role_of (AIMessage _ _) = ''assistant''"
| "role_of (OtherMessage _ _ _) = ''system''"

text \<open>The body of the loop of \<open>_serialize_history\<close>: the entry appended for one message.\<close>

definition serialize_message :: "message \<Rightarrow> pydict" where
  "serialize_message msg =
     (let role = role_of msg;
          content = PDict [(''content'', msg_content msg),
                           (''additional_kwargs'', msg_additional_kwargs msg)]
      in [(''role'', PStr role), (''content'', content)])"

fun serialize_loop :: "message list \<Rightarrow> pydict list \<Rightarrow> pydict list" where
  "serialize_loop [] serialized = serialized"
| "serialize_loop (msg # messages) serialized =
     serialize_loop messages (serialized @ [serialize_message msg])"

definition serialize_history :: "message list \<Rightarrow> pydict list" where
  "serialize_history messages = serialize_loop messages []"

text \<open>
  \<open>_deserialize_history\<close>. The two nested \<open>get\<close> calls run before the role is looked at,
  so they can raise for an entry of any role.
\<close>

fun deserialize_loop :: "pydict list \<Rightarrow> message list \<Rightarrow> exn + message list" where
  "deserialize_loop [] deserialized = Inr deserialized"
| "deserialize_loop (msg # history) deserialized =
     (let role = dict_get msg ''role'' PNone;
          content_data = dict_get msg ''content'' (PDict [])
      in case py_get content_data ''content'' (PStr []) of
           Inl e \<Rightarrow> Inl e
         | Inr content \<Rightarrow>
             (case py_get content_data ''additional_kwargs'' (PDict []) of
                Inl e \<Rightarrow> Inl e
              | Inr kwargs \<Rightarrow>
                  if role = PStr ''user'' then
                    deserialize_loop history (deserialized @ [HumanMessage content (PDict [])])
                  else if role = PStr ''assistant'' then
                    deserialize_loop history (deserialized @ [AIMessage content kwargs])
                  else deserialize_loop history deserialized))"

definition deserialize_history :: "pydict list \<Rightarrow> exn + message list" where
  "deserialize_history history = deserialize_loop history []"

section \<open>Reading an encoded entry\<close>

text \<open>
  Vocabulary for the statements about the codec. An entry of the encoded history carries
  its text and metadata in a nested mapping under \<open>content\<close>; \<open>content_is_mapping\<close> holds
  when that value is a mapping or the key is absent, \<open>content_dict\<close> is the mapping
  (empty when absent), \<open>kept\<close> holds for the two roles that decoding turns into records,
  and \<open>decoded\<close> is the record such an entry stands for.
\<close>

definition content_is_mapping :: "pydict \<Rightarrow> bool" where
  "content_is_mapping msg =
     (case map_of msg ''content'' of
        None \<Rightarrow> True
      | Some (PDict _) \<Rightarrow> True
      | Some _ \<Rightarrow> False)"

definition content_dict :: "pydict \<Rightarrow> pydict" where
  "content_dict msg = (case map_of msg ''content'' of Some (PDict d) \<Rightarrow> d | _ \<Rightarrow> [])"

definition kept :: "pydict \<Rightarrow> bool" where
  "kept msg =
     (dict_get msg ''role'' PNone = PStr ''user'' \<or>
      dict_get msg ''role'' PNone = PStr ''assistant'')"

definition decoded :: "pydict \<Rightarrow> message" where
  "decoded msg =
     (if dict_get msg ''role'' PNone = PStr ''user''
      then HumanMessage (dict_get (content_dict msg) ''content'' (PStr [])) (PDict [])
      else AIMessage (dict_get (content_dict msg) ''content'' (PStr []))
                     (dict_get (content_dict msg) ''additional_kwargs'' (PDict [])))"

section \<open>The agent\<close>

text \<open>
  \<open>MalloyLangChainAgent\<close> and \<open>create_malloy_agent\<close> live in another module; the adapter
  uses them through a handful of operations only. An agent is modelled by what the
  adapter can observe of it: its tools (a name and a \<open>run\<close> method each), and the results
  of \<open>get_conversation_history()\<close> and \<open>get_agent_info()\<close>, each a value or a raised
  exception.
\<close>

record tool =
  name :: string
  run :: "pydict \<Rightarrow> exn + pyval"

record malloy_agent =
  tools :: "tool list"
  conversation_history :: "exn + message list"
  agent_info :: "exn + pydict"

text \<open>
  A coroutine driven by \<open>run_until_complete\<close> either finishes after some number of
  seconds, with a value or a raised exception, or never finishes.
\<close>

datatype 'a awaited = Done nat "exn + 'a" | Hangs

text \<open>
  The asynchronous operations of the agent are parameters of the model:
  \<open>create_malloy_agent(**kwargs)\<close>, \<open>agent.setup()\<close> (giving the agent as set up) and
  \<open>agent.process_question(question)\<close> (giving the returned triple and the agent with its
  history advanced). An operation that raises leaves the agent as it was.
\<close>

record agent_api =
  create_malloy_agent :: "pydict \<Rightarrow> malloy_agent awaited"
  agent_setup :: "malloy_agent \<Rightarrow> malloy_agent awaited"
  process_question ::
    "malloy_agent \<Rightarrow> string \<Rightarrow> ((bool \<times> string \<times> pyval) \<times> malloy_agent) awaited"

text \<open>\<open>json.dumps(result, indent=2)\<close> and \<open>str(result)\<close>, taken as given.\<close>

record py_runtime =
  json_dumps :: "pyval \<Rightarrow> exn + string"
  py_str :: "pyval \<Rightarrow> string"

section \<open>The adapter\<close>

text \<open>
  The three fields of \<open>LangChainCompatibilityAdapter\<close>; an event loop is identified by a
  number. Three more fields keep the books of what the adapter has done: how many event
  loops it has created with \<open>asyncio.new_event_loop()\<close> (the next loop gets this number),
  which of them it has closed, and how many agents \<open>create_malloy_agent\<close> has built for it.
\<close>

record adapter =
  agent_kwargs :: pydict
  agent :: "malloy_agent option"
  loop :: "nat option"
  loops_created :: nat
  loops_closed :: "nat list"
  agents_created :: nat

text \<open>\<open>__init__(**kwargs)\<close>.\<close>

definition init :: "pydict \<Rightarrow> adapter" where
  "init kwargs =
     \<lparr>agent_kwargs = kwargs, agent = None, loop = None,
      loops_created = 0, loops_closed = [], agents_created = 0\<rparr>"

text \<open>
  A call of a method of the adapter returns a value, raises, or never comes back; in the
  first two cases the adapter is left in a new state.
\<close>

datatype 'a call = Returns 'a adapter | Raises exn adapter | Blocks

text \<open>
  \<open>with ThreadPoolExecutor(max_workers=1) as executor\<close> around
  \<open>executor.submit(worker).result(timeout=t)\<close>. \<open>result\<close> hands over what the worker
  returned or raised if the worker is done within \<open>t\<close> seconds and raises TimeoutError
  (whose \<open>str\<close> is empty) otherwise. Leaving the \<open>with\<close> block, normally or by an
  exception, calls \<open>executor.shutdown(wait=True)\<close>, which joins the worker thread: control
  passes the block only once the worker has finished, and never if the worker never does.
\<close>

definition future_result :: "nat \<Rightarrow> 'a awaited \<Rightarrow> (exn + 'a) option" where
  "future_result timeout worker =
     (case worker of
        Hangs \<Rightarrow> None
      | Done d r \<Rightarrow> Some (if d \<le> timeout then r else Inl (TimeoutError [])))"

text \<open>
  The nested function \<open>setup_in_thread\<close> of \<open>_setup_agent_if_needed\<close>, run by the worker:
  what the worker comes to, and the books after it.
\<close>

definition setup_in_thread ::
  "agent_api \<Rightarrow> adapter \<Rightarrow> (malloy_agent \<times> nat) awaited \<times> adapter" where
  "setup_in_thread api s =
     (let new_loop = loops_created s;
          s1 = s\<lparr>loops_created := Suc new_loop\<rparr>
      in case create_malloy_agent api (agent_kwargs s) of
           Hangs \<Rightarrow> (Hangs, s1)
         | Done d1 (Inl e) \<Rightarrow>
             (Done d1 (Inl e), s1\<lparr>loops_closed := new_loop # loops_closed s1\<rparr>)
         | Done d1 (Inr agent0) \<Rightarrow>
             (let s2 = s1\<lparr>agents_created := Suc (agents_created s1)\<rparr>
              in case agent_setup api agent0 of
                   Hangs \<Rightarrow> (Hangs, s2)
                 | Done d2 (Inl e) \<Rightarrow>
                     (Done (d1 + d2) (Inl e),
                      s2\<lparr>loops_closed := new_loop # loops_closed s2\<rparr>)
                 | Done d2 (Inr agent1) \<Rightarrow>
                     (Done (d1 + d2) (Inr (agent1, new_loop)), s2)))"

text \<open>
  The \<open>except RuntimeError\<close> branch of \<open>_setup_agent_if_needed\<close>: a new loop is stored in
  \<open>self.loop\<close> and driven on the calling thread. \<open>run_until_complete\<close> raises RuntimeError
  when another loop is running on that thread.
\<close>

definition setup_on_this_thread :: "agent_api \<Rightarrow> bool \<Rightarrow> adapter \<Rightarrow> unit call" where
  "setup_on_this_thread api running s =
     (let new_loop = loops_created s;
          s1 = s\<lparr>loop := Some new_loop, loops_created := Suc new_loop\<rparr>
      in if running then
           Raises (RuntimeError ''Cannot run the event loop while another loop is running'') s1
         else
           (case create_malloy_agent api (agent_kwargs s1) of
              Hangs \<Rightarrow> Blocks
            | Done d1 (Inl e) \<Rightarrow> Raises e s1
            | Done d1 (Inr agent0) \<Rightarrow>
                (let s2 = s1\<lparr>agent := Some agent0,
                              agents_created := Suc (agents_created s1)\<rparr>
                 in case agent_setup api agent0 of
                      Hangs \<Rightarrow> Blocks
                    | Done d2 (Inl e) \<Rightarrow> Raises e s2
                    | Done d2 (Inr agent1) \<Rightarrow> Returns () (s2\<lparr>agent := Some agent1\<rparr>))))"

text \<open>
  The \<open>try\<close> body of \<open>_setup_agent_if_needed\<close>: \<open>asyncio.get_running_loop()\<close> raises
  RuntimeError when no loop is running on the calling thread; otherwise the set-up runs
  on a worker, waited for with a timeout of 60.
\<close>

definition setup_try_body :: "agent_api \<Rightarrow> bool \<Rightarrow> adapter \<Rightarrow> unit call" where
  "setup_try_body api running s =
     (if \<not> running then Raises (RuntimeError ''no running event loop'') s
      else
        (let (worker, s1) = setup_in_thread api s
         in case future_result 60 worker of
              None \<Rightarrow> Blocks
            | Some (Inl e) \<Rightarrow> Raises e s1
            | Some (Inr (agent1, new_loop)) \<Rightarrow>
                Returns () (s1\<lparr>agent := Some agent1, loop := Some new_loop\<rparr>)))"

text \<open>\<open>_setup_agent_if_needed\<close>; \<open>running\<close> says whether the caller is inside a running loop.\<close>

definition setup_agent_if_needed :: "agent_api \<Rightarrow> bool \<Rightarrow> adapter \<Rightarrow> unit call" where
  "setup_agent_if_needed api running s =
     (if agent s = None then
        (case setup_try_body api running s of
           Raises (RuntimeError m) s1 \<Rightarrow> setup_on_this_thread api running s1
         | r \<Rightarrow> r)
      else Returns () s)"

text \<open>
  \<open>_run_question_in_new_loop\<close>, run by the worker of \<open>process_user_question\<close>. The
  \<open>history\<close> argument is received and not used.
\<close>

definition run_question_in_new_loop ::
  "agent_api \<Rightarrow> adapter \<Rightarrow> string \<Rightarrow> pydict list option
     \<Rightarrow> (bool \<times> string \<times> message list) awaited \<times> adapter" where
  "run_question_in_new_loop api s question history =
     (case (agent s, loop s) of
        (Some agent0, Some lp) \<Rightarrow>
          (case process_question api agent0 question of
             Hangs \<Rightarrow> (Hangs, s)
           | Done d (Inl e) \<Rightarrow> (Done d (Inl e), s)
           | Done d (Inr ((success, response, _), agent1)) \<Rightarrow>
               (case conversation_history agent1 of
                  Inl e \<Rightarrow> (Done d (Inl e), s\<lparr>agent := Some agent1\<rparr>)
                | Inr final_history_obj \<Rightarrow>
                    (Done d (Inr (success, response, final_history_obj)),
                     s\<lparr>agent := Some agent1\<rparr>)))
      | _ \<Rightarrow>
          (Done 0 (Inl (RuntimeError
             ''Adapter not initialized. Call _setup_agent_if_needed first.'')), s))"

text \<open>The \<open>except Exception\<close> handler of \<open>process_user_question\<close>.\<close>

definition question_failed :: "exn \<Rightarrow> bool \<times> string \<times> pydict list" where
  "question_failed e = (False, ''Error in LangChain processing: '' @ str_exn e, [])"

text \<open>\<open>process_user_question\<close>.\<close>

definition process_user_question ::
  "agent_api \<Rightarrow> bool \<Rightarrow> adapter \<Rightarrow> string \<Rightarrow> pydict list option
     \<Rightarrow> (bool \<times> string \<times> pydict list) call" where
  "process_user_question api running s user_question history =
     (case setup_agent_if_needed api running s of
        Blocks \<Rightarrow> Blocks
      | Raises e s1 \<Rightarrow> Returns (question_failed e) s1
      | Returns _ s1 \<Rightarrow>
          (let (worker, s2) = run_question_in_new_loop api s1 user_question history
           in case future_result 300 worker of
                None \<Rightarrow> Blocks
              | Some (Inl e) \<Rightarrow> Returns (question_failed e) s2
              | Some (Inr (success, response, final_history_obj)) \<Rightarrow>
                  Returns (success, response, serialize_history final_history_obj) s2))"

text \<open>
  \<open>call_tool\<close>. The inner \<open>case\<close> is the \<open>try\<close> body, the outer one the handler; the
  result is \<open>Inl\<close> if the method raises.
\<close>

definition call_tool :: "py_runtime \<Rightarrow> adapter \<Rightarrow> string \<Rightarrow> pydict \<Rightarrow> exn + string" where
  "call_tool rt s tool_name kwargs =
     (case agent s of
        None \<Rightarrow> Inr ''Error: LangChain agent not initialized''
      | Some agent0 \<Rightarrow>
          (case (case find (\<lambda>t. name t = tool_name) (tools agent0) of
                   None \<Rightarrow>
                     Inr (''Error: Tool '' @ [CHR 0x27] @ tool_name @ [CHR 0x27]
                          @ '' not found'')
                 | Some tool0 \<Rightarrow>
                     (case run tool0 kwargs of
                        Inl e \<Rightarrow> Inl e
                      | Inr result \<Rightarrow>
                          (case result of
                             PDict _ \<Rightarrow> json_dumps rt result
                           | _ \<Rightarrow> Inr (py_str rt result))))
           of Inl e \<Rightarrow> Inr (''Error calling tool '' @ tool_name @ '': '' @ str_exn e)
            | Inr r \<Rightarrow> Inr r))"

text \<open>
  \<open>d.update(u)\<close> and \<open>d[k] = v\<close> on association lists: a key already present keeps its
  place and takes the new value, a new key goes to the end.
\<close>

fun dict_update :: "pydict \<Rightarrow> pydict \<Rightarrow> pydict" where
  "dict_update d [] = d"
| "dict_update d ((k, v) # u) = dict_update (AList.update k v d) u"

text \<open>The \<open>base_info\<close> literal of \<open>get_agent_info\<close>.\<close>

definition base_info :: "adapter \<Rightarrow> pydict" where
  "base_info s =
     [(''adapter_type'', PStr ''LangChain''),
      (''llm_provider'', dict_get (agent_kwargs s) ''llm_provider'' (PStr ''unknown'')),
      (''llm_model'', dict_get (agent_kwargs s) ''llm_model'' (PStr ''unknown'')),
      (''mcp_url'', dict_get (agent_kwargs s) ''mcp_url'' (PStr ''unknown'')),
      (''setup_complete'', PBool (agent s \<noteq> None)),
      (''vertex_project_id'', dict_get (agent_kwargs s) ''vertex_project_id'' PNone),
      (''vertex_location'', dict_get (agent_kwargs s) ''vertex_location'' PNone)]"

text \<open>\<open>get_agent_info\<close>.\<close>

definition get_agent_info :: "adapter \<Rightarrow> pydict" where
  "get_agent_info s =
     (case agent s of
        None \<Rightarrow> base_info s
      | Some agent0 \<Rightarrow>
          (case agent_info agent0 of
             Inr langchain_info \<Rightarrow> dict_update (base_info s) langchain_info
           | Inl e \<Rightarrow> AList.update ''error'' (PStr (str_exn e)) (base_info s)))"

text \<open>
  A caller that invokes \<open>_setup_agent_if_needed\<close> once per element of a list, each
  element saying whether that call is made from inside a running loop; it stops at the
  first call that raises or blocks.
\<close>

fun setup_calls :: "agent_api \<Rightarrow> bool list \<Rightarrow> adapter \<Rightarrow> unit call" where
  "setup_calls api [] s = Returns () s"
| "setup_calls api (running # rest) s =
     (case setup_agent_if_needed api running s of
        Returns _ s1 \<Rightarrow> setup_calls api rest s1
      | r \<Rightarrow> r)"

text \<open>
  Collaborators none of whose asynchronous operations runs forever.
\<close>

definition never_hangs :: "agent_api \<Rightarrow> bool" where
  "never_hangs api =
     ((\<forall>kwargs. create_malloy_agent api kwargs \<noteq> Hangs)
      \<and> (\<forall>a. agent_setup api a \<noteq> Hangs)
      \<and> (\<forall>a q. process_question api a q \<noteq> Hangs))"

section \<open>Sample collaborators\<close>

text \<open>
  Concrete collaborators on which the statements below are evaluated: an agent with one
  tool whose self-reported info collides with two keys of the adapter's own, an API that
  builds it and answers in five seconds, the same API with an answer operation that never
  completes, and stand-ins for the two rendering functions.
\<close>

definition echo_tool :: tool where
  "echo_tool = \<lparr>name = ''echo'', run = (\<lambda>kwargs. Inr (PDict kwargs))\<rparr>"

definition demo_agent :: malloy_agent where
  "demo_agent =
     \<lparr>tools = [echo_tool],
      conversation_history = Inr [],
      agent_info = Inr [(''adapter_type'', PStr ''Malloy''),
                       (''setup_complete'', PStr ''ready''),
                       (''tool_count'', PInt 1)]\<rparr>"

definition answering ::
  "malloy_agent \<Rightarrow> string \<Rightarrow> ((bool \<times> string \<times> pyval) \<times> malloy_agent) awaited" where
  "answering a q =
     Done 5 (Inr ((True, ''4'', PNone),
                  a\<lparr>conversation_history :=
                      Inr [HumanMessage (PStr q) (PDict []),
                           AIMessage (PStr ''4'') (PDict [])]\<rparr>))"

definition demo_api :: agent_api where
  "demo_api =
     \<lparr>create_malloy_agent = (\<lambda>kwargs. Done 2 (Inr demo_agent)),
      agent_setup = (\<lambda>a. Done 1 (Inr a)),
      process_question = answering\<rparr>"

definition stuck_api :: agent_api where
  "stuck_api = demo_api\<lparr>process_question := (\<lambda>a q. Hangs)\<rparr>"

definition demo_runtime :: py_runtime where
  "demo_runtime = \<lparr>json_dumps = (\<lambda>v. Inr ''{}''), py_str = (\<lambda>v. ''None'')\<rparr>"

text \<open>The adapter after a first successful set-up by the sample API, from no configuration.\<close>

definition ready :: adapter where
  "ready = \<lparr>agent_kwargs = [], agent = Some demo_agent, loop = Some 0,
            loops_created = 1, loops_closed = [], agents_created = 1\<rparr>"

section \<open>Properties of the codec\<close>

lemma serialize_loop_append: "serialize_loop ms acc = acc @ map serialize_message ms"
  by (induction ms arbitrary: acc) simp_all

lemma serialize_history_map: "serialize_history ms = map serialize_message ms"
  by (simp add: serialize_history_def serialize_loop_append)

lemma content_data_mapping:
  "content_is_mapping msg \<Longrightarrow> dict_get msg ''content'' (PDict []) = PDict (content_dict msg)"
  by (auto simp: content_is_mapping_def dict_get_def content_dict_def
           split: option.splits pyval.splits)

lemma deserialize_loop_step:
  assumes "content_is_mapping msg"
  shows "deserialize_loop (msg # history) acc =
           deserialize_loop history (if kept msg then acc @ [decoded msg] else acc)"
  using content_data_mapping[OF assms]
  by (simp add: py_get_def kept_def decoded_def Let_def)

lemma deserialize_loop_filter:
  "list_all content_is_mapping history \<Longrightarrow>
   deserialize_loop history acc = Inr (acc @ map decoded (filter kept history))"
proof (induction history arbitrary: acc)
  case Nil
  show ?case by simp
next
  case (Cons msg history)
  then have m: "content_is_mapping msg" and rest: "list_all content_is_mapping history"
    by simp_all
  show ?case
    unfolding deserialize_loop_step[OF m] using Cons.IH[OF rest] by simp
qed

lemma deserialize_history_filter:
  "list_all content_is_mapping history \<Longrightarrow>
   deserialize_history history = Inr (map decoded (filter kept history))"
  by (simp add: deserialize_history_def deserialize_loop_filter)

text \<open>
  The precondition of the lemmas above is needed: an entry whose \<open>content\<close> is present
  and is not a mapping makes the nested \<open>get\<close> raise, whatever its role.
\<close>

lemma deserialize_loop_raises:
  "\<not> content_is_mapping msg \<Longrightarrow> \<exists>e. deserialize_loop (msg # history) acc = Inl e"
  by (auto simp: content_is_mapping_def dict_get_def py_get_def
           split: option.splits pyval.splits)

text \<open>
  C3. Round trip for assistant records: decoding the encoding of the singleton list
  holding an assistant record gives that list back, for every text and every metadata.
\<close>

theorem assistant_round_trip:
  "deserialize_history (serialize_history [AIMessage text metadata])
     = Inr [AIMessage text metadata]"
  by (simp add: deserialize_history_def serialize_history_def serialize_message_def
                py_get_def dict_get_def)

text \<open>
  C4. Role filtering: on an encoded history (every entry's \<open>content\<close> a mapping, or
  absent) decoding raises nothing, returns the records of the entries whose role is
  \<open>user\<close> or \<open>assistant\<close> in their order and drops every other entry, so the output is
  no longer than the input; a single entry with role \<open>system\<close> decodes to the empty list.
\<close>

theorem decode_drops_other_roles:
  assumes "list_all content_is_mapping history"
  shows "(\<exists>out. deserialize_history history = Inr out
              \<and> out = map decoded (filter kept history)
              \<and> length out \<le> length history)
         \<and> deserialize_history [[(''role'', PStr ''system''), (''content'', PDict c)]] = Inr []"
proof -
  have "deserialize_history history = Inr (map decoded (filter kept history))"
    using assms by (rule deserialize_history_filter)
  moreover have "length (map decoded (filter kept history)) \<le> length history"
    by simp
  moreover have
    "deserialize_history [[(''role'', PStr ''system''), (''content'', PDict c)]] = Inr []"
    by (simp add: deserialize_history_def py_get_def dict_get_def)
  ultimately show ?thesis by blast
qed

theorem decode_drops_other_roles_witness:
  "list_all content_is_mapping
     [[(''role'', PStr ''user''), (''content'', PDict [(''content'', PStr ''hi'')])],
      [(''role'', PStr ''system''), (''content'', PDict [(''content'', PStr ''be brief'')])],
      [(''role'', PStr ''tool'')],
      [(''role'', PStr ''assistant''), (''content'', PDict [(''content'', PStr ''hello'')])]]
   \<and> deserialize_history
     [[(''role'', PStr ''user''), (''content'', PDict [(''content'', PStr ''hi'')])],
      [(''role'', PStr ''system''), (''content'', PDict [(''content'', PStr ''be brief'')])],
      [(''role'', PStr ''tool'')],
      [(''role'', PStr ''assistant''), (''content'', PDict [(''content'', PStr ''hello'')])]]
     = Inr [HumanMessage (PStr ''hi'') (PDict []), AIMessage (PStr ''hello'') (PDict [])]"
proof -
  let ?h = "[[(''role'', PStr ''user''), (''content'', PDict [(''content'', PStr ''hi'')])],
      [(''role'', PStr ''system''), (''content'', PDict [(''content'', PStr ''be brief'')])],
      [(''role'', PStr ''tool'')],
      [(''role'', PStr ''assistant''), (''content'', PDict [(''content'', PStr ''hello'')])]]"
  have h: "list_all content_is_mapping ?h"
    by (simp add: content_is_mapping_def)
  show ?thesis
    using h decode_drops_other_roles [OF h]
    by (simp add: kept_def decoded_def content_dict_def dict_get_def)
qed

text \<open>
  C5. A \<open>user\<close> entry decodes to a user record that carries only the nested
  \<open>content.content\<close> text: its metadata is the constructor's empty default whatever
  \<open>additional_kwargs\<close> the entry holds. Encoding is not symmetric: it writes the metadata
  of every record, so a user record with metadata comes back from a round trip without it.
\<close>

theorem decode_user_ignores_metadata:
  assumes "dict_get msg ''role'' PNone = PStr ''user''"
      and "map_of msg ''content'' = Some (PDict d)"
  shows "deserialize_history [msg]
           = Inr [HumanMessage (dict_get d ''content'' (PStr [])) (PDict [])]
         \<and> serialize_history [m]
           = [[(''role'', PStr (role_of m)),
               (''content'', PDict [(''content'', msg_content m),
                                    (''additional_kwargs'', msg_additional_kwargs m)])]]
         \<and> deserialize_history (serialize_history [HumanMessage text metadata])
           = Inr [HumanMessage text (PDict [])]"
  using assms
  by (simp add: deserialize_history_def serialize_history_def serialize_message_def
                py_get_def dict_get_def)

theorem decode_user_ignores_metadata_witness:
  "dict_get [(''role'', PStr ''user''),
             (''content'', PDict [(''content'', PStr ''hi''),
                                  (''additional_kwargs'', PDict [(''tool_data'', PInt 7)])])]
            ''role'' PNone = PStr ''user''
   \<and> deserialize_history
        [[(''role'', PStr ''user''),
          (''content'', PDict [(''content'', PStr ''hi''),
                               (''additional_kwargs'', PDict [(''tool_data'', PInt 7)])])]]
      = Inr [HumanMessage (PStr ''hi'') (PDict [])]"
proof -
  let ?d = "[(''content'', PStr ''hi''),
             (''additional_kwargs'', PDict [(''tool_data'', PInt 7)])]"
  let ?msg = "[(''role'', PStr ''user''), (''content'', PDict ?d)]"
  have r: "dict_get ?msg ''role'' PNone = PStr ''user''"
    by (simp add: dict_get_def)
  have c: "map_of ?msg ''content'' = Some (PDict ?d)"
    by simp
  show ?thesis
    using r decode_user_ignores_metadata [OF r c, of "HumanMessage PNone PNone" PNone PNone]
    by (simp add: dict_get_def)
qed

text \<open>
  C9. Decoding malformed entries: a history whose entries all have role \<open>user\<close> or
  \<open>assistant\<close> and a \<open>content\<close> that is a mapping or absent decodes without an error
  to one record per entry, of the entry's role; where the mapping is absent or lacks the
  \<open>content\<close> key the record's text is the empty string, and where it is absent or lacks
  the \<open>additional_kwargs\<close> key the record's metadata is the empty map.
\<close>

theorem decode_total_with_defaults:
  assumes "list_all kept history"
      and "list_all content_is_mapping history"
  shows "\<exists>out. deserialize_history history = Inr out
           \<and> length out = length history
           \<and> (\<forall>i < length history.
                PStr (role_of (out ! i)) = dict_get (history ! i) ''role'' PNone
              \<and> (map_of (history ! i) ''content'' = None
                   \<longrightarrow> msg_content (out ! i) = PStr []
                     \<and> msg_additional_kwargs (out ! i) = PDict [])
              \<and> (map_of (content_dict (history ! i)) ''content'' = None
                   \<longrightarrow> msg_content (out ! i) = PStr [])
              \<and> (map_of (content_dict (history ! i)) ''additional_kwargs'' = None
                   \<longrightarrow> msg_additional_kwargs (out ! i) = PDict []))"
proof -
  have all: "filter kept history = history"
    using assms(1) by (simp add: list_all_iff)
  have out: "deserialize_history history = Inr (map decoded history)"
    using deserialize_history_filter [OF assms(2)] all by simp
  have "PStr (role_of (decoded msg)) = dict_get msg ''role'' PNone
        \<and> (map_of msg ''content'' = None
             \<longrightarrow> msg_content (decoded msg) = PStr []
               \<and> msg_additional_kwargs (decoded msg) = PDict [])
        \<and> (map_of (content_dict msg) ''content'' = None
             \<longrightarrow> msg_content (decoded msg) = PStr [])
        \<and> (map_of (content_dict msg) ''additional_kwargs'' = None
             \<longrightarrow> msg_additional_kwargs (decoded msg) = PDict [])"
    if "kept msg" for msg
    using that by (auto simp: kept_def decoded_def content_dict_def dict_get_def)
  moreover have "kept (history ! i)" if "i < length history" for i
    using assms(1) that by (simp add: list_all_length)
  ultimately show ?thesis
    using out by simp
qed

theorem decode_total_with_defaults_witness:
  "list_all kept
     [[(''role'', PStr ''user'')],
      [(''role'', PStr ''assistant''), (''content'', PDict [])],
      [(''role'', PStr ''assistant''), (''content'', PDict [(''content'', PStr ''ok'')])]]
   \<and> list_all content_is_mapping
     [[(''role'', PStr ''user'')],
      [(''role'', PStr ''assistant''), (''content'', PDict [])],
      [(''role'', PStr ''assistant''), (''content'', PDict [(''content'', PStr ''ok'')])]]
   \<and> deserialize_history
     [[(''role'', PStr ''user'')],
      [(''role'', PStr ''assistant''), (''content'', PDict [])],
      [(''role'', PStr ''assistant''), (''content'', PDict [(''content'', PStr ''ok'')])]]
     = Inr [HumanMessage (PStr []) (PDict []),
            AIMessage (PStr []) (PDict []),
            AIMessage (PStr ''ok'') (PDict [])]"
proof -
  let ?h = "[[(''role'', PStr ''user'')],
      [(''role'', PStr ''assistant''), (''content'', PDict [])],
      [(''role'', PStr ''assistant''), (''content'', PDict [(''content'', PStr ''ok'')])]]"
  have k: "list_all kept ?h"
    by (simp add: kept_def dict_get_def)
  have c: "list_all content_is_mapping ?h"
    by (simp add: content_is_mapping_def)
  from decode_total_with_defaults [OF k c]
  obtain out where "deserialize_history ?h = Inr out" and "length out = length ?h"
    by blast
  then show ?thesis
    using k c by (simp add: deserialize_history_def py_get_def dict_get_def Let_def)
qed

section \<open>Properties of the lifecycle\<close>

lemma setup_agent_if_needed_noop:
  "agent s \<noteq> None \<Longrightarrow> setup_agent_if_needed api running s = Returns () s"
  by (auto simp: setup_agent_if_needed_def)

lemma setup_calls_noop: "agent s \<noteq> None \<Longrightarrow> setup_calls api rs s = Returns () s"
  by (induction rs) (simp_all add: setup_agent_if_needed_noop)

lemma setup_on_this_thread_Returns:
  "setup_on_this_thread api running s = Returns u s' \<Longrightarrow>
     agent s' \<noteq> None \<and> loop s' = Some (loops_created s)
     \<and> loops_created s' = Suc (loops_created s)
     \<and> agents_created s' = Suc (agents_created s)"
  by (auto simp: setup_on_this_thread_def Let_def split: if_splits awaited.splits sum.splits)

lemma setup_try_body_Returns:
  "setup_try_body api running s = Returns u s' \<Longrightarrow>
     agent s' \<noteq> None \<and> loop s' = Some (loops_created s)
     \<and> loops_created s' = Suc (loops_created s)
     \<and> agents_created s' = Suc (agents_created s)"
  by (auto simp: setup_try_body_def setup_in_thread_def future_result_def Let_def
           split: if_splits awaited.splits sum.splits option.splits prod.splits)

lemma setup_try_body_not_running:
  "\<not> running \<Longrightarrow>
   setup_try_body api running s = Raises (RuntimeError ''no running event loop'') s"
  by (simp add: setup_try_body_def)

lemma setup_on_this_thread_running:
  "running \<Longrightarrow> setup_on_this_thread api running s \<noteq> Returns u s'"
  by (simp add: setup_on_this_thread_def Let_def)

lemma first_setup:
  assumes "agent s = None" and "setup_agent_if_needed api running s = Returns u s'"
  shows "agent s' \<noteq> None \<and> loop s' = Some (loops_created s)
         \<and> loops_created s' = Suc (loops_created s)
         \<and> agents_created s' = Suc (agents_created s)"
proof (cases running)
  case True
  with assms show ?thesis
    by (auto simp: setup_agent_if_needed_def setup_on_this_thread_running
             split: call.splits exn.splits dest: setup_try_body_Returns)
next
  case False
  with assms show ?thesis
    by (auto simp: setup_agent_if_needed_def setup_try_body_not_running
             dest: setup_on_this_thread_Returns)
qed

text \<open>
  C2. Once the agent exists, \<open>_setup_agent_if_needed\<close> returns at once and leaves the
  adapter as it was, agent and loop included, however often it is called. So when the
  first call on an adapter without agent returns, any number of calls ends in the state
  the first one reached, in which one agent and one event loop have been made.
\<close>

theorem setup_idempotent:
  "(agent s \<noteq> None \<longrightarrow>
      setup_agent_if_needed api running s = Returns () s
      \<and> setup_calls api rs s = Returns () s)
   \<and> (agent s0 = None \<and> setup_agent_if_needed api r0 s0 = Returns () s1 \<longrightarrow>
      setup_calls api (r0 # rs) s0 = Returns () s1
      \<and> agent s1 \<noteq> None
      \<and> loop s1 = Some (loops_created s0)
      \<and> loops_created s1 = Suc (loops_created s0)
      \<and> agents_created s1 = Suc (agents_created s0))"
proof (intro conjI impI)
  assume "agent s \<noteq> None"
  then show "setup_agent_if_needed api running s = Returns () s"
    and "setup_calls api rs s = Returns () s"
    by (simp_all add: setup_agent_if_needed_noop setup_calls_noop)
next
  assume h: "agent s0 = None \<and> setup_agent_if_needed api r0 s0 = Returns () s1"
  then have f: "agent s1 \<noteq> None \<and> loop s1 = Some (loops_created s0)
         \<and> loops_created s1 = Suc (loops_created s0)
         \<and> agents_created s1 = Suc (agents_created s0)"
    using first_setup by blast
  from f show "agent s1 \<noteq> None" and "loop s1 = Some (loops_created s0)"
    and "loops_created s1 = Suc (loops_created s0)"
    and "agents_created s1 = Suc (agents_created s0)"
    by simp_all
  from h f show "setup_calls api (r0 # rs) s0 = Returns () s1"
    by (simp add: setup_calls_noop)
qed

lemma demo_first_direct: "setup_agent_if_needed demo_api False (init []) = Returns () ready"
  by (simp add: setup_agent_if_needed_def setup_try_body_def setup_on_this_thread_def
                init_def demo_api_def ready_def)

lemma demo_first_thread: "setup_agent_if_needed demo_api True (init []) = Returns () ready"
  by (simp add: setup_agent_if_needed_def setup_try_body_def setup_in_thread_def
                future_result_def init_def demo_api_def ready_def)

theorem setup_idempotent_witness:
  "agent (init []) = None
   \<and> setup_agent_if_needed demo_api True (init []) = Returns () ready
   \<and> agent ready = Some demo_agent
   \<and> setup_agent_if_needed demo_api False ready = Returns () ready
   \<and> setup_calls demo_api [True, False, True, False] (init []) = Returns () ready
   \<and> loops_created ready = 1
   \<and> agents_created ready = 1"
proof -
  have n: "agent (init []) = None"
    by (simp add: init_def)
  have r: "agent ready = Some demo_agent"
    by (simp add: ready_def)
  have c: "loops_created ready = 1" "agents_created ready = 1"
    by (simp_all add: ready_def)
  note t = setup_idempotent [where s = ready and api = demo_api and running = False
                               and rs = "[False, True, False]" and ?s0.0 = "init []"
                               and ?r0.0 = True and ?s1.0 = ready]
  from t r have a: "setup_agent_if_needed demo_api False ready = Returns () ready"
    by simp
  from t n demo_first_thread
  have b: "setup_calls demo_api [True, False, True, False] (init []) = Returns () ready"
    by blast
  from n demo_first_thread r a b c show ?thesis
    by blast
qed

section \<open>Properties of question processing\<close>

text \<open>
  C6. The \<open>history\<close> argument has no influence: with the same collaborators, the same
  adapter and the same question, two calls of \<open>process_user_question\<close> that differ only
  in the history they are given have the same outcome.
\<close>

theorem history_argument_unused:
  "process_user_question api running s q h1 = process_user_question api running s q h2"
proof -
  have "run_question_in_new_loop api s1 q h1 = run_question_in_new_loop api s1 q h2" for s1
    by (simp add: run_question_in_new_loop_def)
  then show ?thesis
    by (simp add: process_user_question_def cong: call.case_cong)
qed

lemma process_user_question_never_raises:
  "process_user_question api running s q h \<noteq> Raises e s'"
  by (simp add: process_user_question_def
           split: call.splits prod.splits option.splits sum.splits)

lemma future_result_Some:
  "worker \<noteq> Hangs \<Longrightarrow> \<exists>r. future_result t worker = Some r"
  by (cases worker) (simp_all add: future_result_def)

lemma future_result_late:
  "t < d \<Longrightarrow> future_result t (Done d r) = Some (Inl (TimeoutError []))"
  by (simp add: future_result_def)

lemma question_late_reported:
  assumes "agent s = Some a" and "loop s = Some l"
      and "process_question api a q = Done d r" and "300 < d"
  shows "\<exists>s'. process_user_question api running s q h
           = Returns (False, ''Error in LangChain processing: '', []) s'"
  using assms
  by (auto simp: process_user_question_def setup_agent_if_needed_def
                 run_question_in_new_loop_def future_result_def question_failed_def
           split: sum.splits prod.splits)

lemma question_hang_blocks:
  assumes "agent s = Some a" and "loop s = Some l"
      and "process_question api a q = Hangs"
  shows "process_user_question api running s q h = Blocks"
  using assms
  by (simp add: process_user_question_def setup_agent_if_needed_def
                run_question_in_new_loop_def future_result_def)

text \<open>
  With collaborators that never hang the call comes back, and it never raises.
\<close>

lemma setup_in_thread_finishes:
  "never_hangs api \<Longrightarrow> fst (setup_in_thread api s) \<noteq> Hangs"
  by (auto simp: never_hangs_def setup_in_thread_def Let_def split: awaited.splits sum.splits)

lemma setup_try_body_finishes:
  "never_hangs api \<Longrightarrow> setup_try_body api running s \<noteq> Blocks"
  using setup_in_thread_finishes [of api s, THEN future_result_Some, of 60]
  by (auto simp: setup_try_body_def split: prod.splits option.splits sum.splits)

lemma setup_on_this_thread_finishes:
  "never_hangs api \<Longrightarrow> setup_on_this_thread api running s \<noteq> Blocks"
  by (auto simp: never_hangs_def setup_on_this_thread_def Let_def split: awaited.splits sum.splits)

lemma setup_agent_if_needed_finishes:
  "never_hangs api \<Longrightarrow> setup_agent_if_needed api running s \<noteq> Blocks"
  using setup_try_body_finishes [of api running s]
  by (auto simp: setup_agent_if_needed_def setup_on_this_thread_finishes
           split: call.splits exn.splits)

lemma run_question_finishes:
  "never_hangs api \<Longrightarrow> fst (run_question_in_new_loop api s q h) \<noteq> Hangs"
  by (auto simp: never_hangs_def run_question_in_new_loop_def
           split: option.splits awaited.splits sum.splits prod.splits)

lemma process_user_question_returns:
  assumes "never_hangs api"
  shows "\<exists>r s'. process_user_question api running s q h = Returns r s'"
proof (cases "setup_agent_if_needed api running s")
  case (Returns u s1)
  obtain worker s2 where w: "run_question_in_new_loop api s1 q h = (worker, s2)"
    by (cases "run_question_in_new_loop api s1 q h")
  then have "worker \<noteq> Hangs"
    using run_question_finishes [OF assms, of s1 q h] by simp
  then obtain r where "future_result 300 worker = Some r"
    using future_result_Some by blast
  with Returns w show ?thesis
    by (cases r) (auto simp: process_user_question_def question_failed_def)
next
  case (Raises e s1)
  then show ?thesis
    by (auto simp: process_user_question_def question_failed_def)
next
  case Blocks
  with setup_agent_if_needed_finishes [OF assms] show ?thesis
    by blast
qed

text \<open>
  C1 says that \<open>process_user_question\<close> turns every failure, a timeout of the bounded
  wait included, into the triple of \<open>False\<close>, an error message and the empty history
  instead of hanging. With an agent whose answer operation never completes this is not
  what happens: the wait for the result times out after 300 seconds, but the \<open>with\<close>
  block around it then joins the worker, so the call never comes back.
\<close>

theorem unanswered_question_blocks:
  "process_user_question stuck_api False (init []) ''What is 2+2?'' None = Blocks"
  by (simp add: process_user_question_def setup_agent_if_needed_def setup_try_body_def
                setup_on_this_thread_def run_question_in_new_loop_def future_result_def
                init_def stuck_api_def demo_api_def)

section \<open>Properties of the informational accessors\<close>

lemma map_of_rev_distinct:
  "distinct (map fst xs) \<Longrightarrow> map_of (rev xs) = map_of xs"
proof -
  assume d: "distinct (map fst xs)"
  have "map fst (rev xs) = rev (map fst xs)"
    by (rule rev_map [symmetric])
  then have "distinct (map fst (rev xs))"
    using d by (simp only: distinct_rev)
  moreover have "set (rev xs) = set xs"
    by (rule set_rev)
  ultimately show ?thesis
    using d by (simp only: map_of_inject_set)
qed

lemma map_of_dict_update:
  "map_of (dict_update d u) = map_of d ++ map_of (rev u)"
proof (induction u arbitrary: d)
  case Nil
  show ?case by simp
next
  case (Cons p u)
  obtain k v where p: "p = (k, v)" by (cases p)
  have "map_of (dict_update d (p # u)) = map_of (AList.update k v d) ++ map_of (rev u)"
    unfolding p by (simp only: dict_update.simps Cons.IH)
  also have "\<dots> = (map_of d ++ [k \<mapsto> v]) ++ map_of (rev u)"
    by (simp only: update_conv' map_add_upd map_add_empty)
  also have "\<dots> = map_of d ++ ([k \<mapsto> v] ++ map_of (rev u))"
    by (simp only: map_add_assoc)
  also have "[k \<mapsto> v] ++ map_of (rev u) = map_of (rev (p # u))"
    unfolding p by (simp only: rev.simps map_of_append map_of.simps fst_conv snd_conv)
  finally show ?case .
qed

text \<open>
  C8 as stated fails: on a fresh adapter built without configuration the project and
  location identifiers are reported as \<open>None\<close>, not as \<open>unknown\<close>.
\<close>

theorem fresh_info_vertex_defaults_not_unknown:
  "map_of (get_agent_info (init [])) ''vertex_project_id'' \<noteq> Some (PStr ''unknown'')
   \<and> map_of (get_agent_info (init [])) ''vertex_location'' \<noteq> Some (PStr ''unknown'')"
  by (simp add: get_agent_info_def init_def base_info_def dict_get_def)

text \<open>
  C8, amended. On a freshly constructed adapter \<open>get_agent_info\<close> returns a map with
  exactly seven keys: \<open>setup_complete\<close> is false, \<open>adapter_type\<close> is \<open>LangChain\<close>, the
  provider, model and endpoint URL are the configured values or \<open>unknown\<close> where the key
  was not supplied, and the project and location identifiers are the configured values
  or \<open>None\<close> where the key was not supplied.
\<close>

theorem fresh_info:
  "map fst (get_agent_info (init kwargs))
     = [''adapter_type'', ''llm_provider'', ''llm_model'', ''mcp_url'',
        ''setup_complete'', ''vertex_project_id'', ''vertex_location'']
   \<and> map_of (get_agent_info (init kwargs)) ''setup_complete'' = Some (PBool False)
   \<and> map_of (get_agent_info (init kwargs)) ''adapter_type'' = Some (PStr ''LangChain'')
   \<and> (\<forall>k \<in> {''llm_provider'', ''llm_model'', ''mcp_url''}.
         map_of (get_agent_info (init kwargs)) k
           = Some (case map_of kwargs k of None \<Rightarrow> PStr ''unknown'' | Some v \<Rightarrow> v))
   \<and> (\<forall>k \<in> {''vertex_project_id'', ''vertex_location''}.
         map_of (get_agent_info (init kwargs)) k
           = Some (case map_of kwargs k of None \<Rightarrow> PNone | Some v \<Rightarrow> v))"
  by (simp add: get_agent_info_def init_def base_info_def dict_get_def)

theorem fresh_info_witness:
  "get_agent_info (init [(''llm_model'', PStr ''gemini'')])
     = [(''adapter_type'', PStr ''LangChain''),
        (''llm_provider'', PStr ''unknown''),
        (''llm_model'', PStr ''gemini''),
        (''mcp_url'', PStr ''unknown''),
        (''setup_complete'', PBool False),
        (''vertex_project_id'', PNone),
        (''vertex_location'', PNone)]"
  using fresh_info [of "[(''llm_model'', PStr ''gemini'')]"]
  by (simp add: get_agent_info_def init_def base_info_def dict_get_def)

text \<open>
  C10. When the agent exists and reports an info map, \<open>get_agent_info\<close> returns the
  base map overwritten by it: every key the agent reports carries the agent's value in
  the result, also a key of the base map such as \<open>setup_complete\<close> or \<open>adapter_type\<close>,
  and every other key keeps its base value.
\<close>

theorem agent_info_overwrites_base:
  assumes "agent s = Some a" and "agent_info a = Inr info" and "distinct (map fst info)"
  shows "map_of (get_agent_info s) k =
           (case map_of info k of Some v \<Rightarrow> Some v | None \<Rightarrow> map_of (base_info s) k)"
  using assms
  by (simp add: get_agent_info_def map_of_dict_update map_of_rev_distinct map_add_def)

theorem agent_info_overwrites_base_witness:
  "agent ((init [])\<lparr>agent := Some demo_agent\<rparr>) = Some demo_agent
   \<and> map_of (base_info ((init [])\<lparr>agent := Some demo_agent\<rparr>)) ''setup_complete''
       = Some (PBool True)
   \<and> map_of (get_agent_info ((init [])\<lparr>agent := Some demo_agent\<rparr>)) ''setup_complete''
       = Some (PStr ''ready'')
   \<and> map_of (get_agent_info ((init [])\<lparr>agent := Some demo_agent\<rparr>)) ''adapter_type''
       = Some (PStr ''Malloy'')
   \<and> map_of (get_agent_info ((init [])\<lparr>agent := Some demo_agent\<rparr>)) ''llm_model''
       = Some (PStr ''unknown'')"
proof -
  let ?s = "(init [])\<lparr>agent := Some demo_agent\<rparr>"
  let ?info = "[(''adapter_type'', PStr ''Malloy''),
                (''setup_complete'', PStr ''ready''),
                (''tool_count'', PInt 1)]"
  have a: "agent ?s = Some demo_agent"
    by simp
  have i: "agent_info demo_agent = Inr ?info"
    by (simp add: demo_agent_def)
  have d: "distinct (map fst ?info)"
    by simp
  note r = agent_info_overwrites_base [OF a i d]
  show ?thesis
    using a r [of "''setup_complete''"] r [of "''adapter_type''"] r [of "''llm_model''"]
    by (simp add: base_info_def init_def dict_get_def)
qed

section \<open>Properties of the tool call\<close>

text \<open>
  C7. \<open>call_tool\<close> never raises. Before the agent exists it returns the string
  \<open>Error: LangChain agent not initialized\<close>; once it exists, when no tool of the agent
  has the requested name, it returns \<open>Error: Tool '<name>' not found\<close>.
\<close>

theorem call_tool_sentinels:
  "(agent s = None \<longrightarrow>
      call_tool rt s tool_name kwargs = Inr ''Error: LangChain agent not initialized'')
   \<and> (\<forall>a. agent s = Some a \<and> (\<forall>t \<in> set (tools a). name t \<noteq> tool_name) \<longrightarrow>
      call_tool rt s tool_name kwargs
        = Inr (''Error: Tool '' @ [CHR 0x27] @ tool_name @ [CHR 0x27] @ '' not found''))
   \<and> (\<exists>r. call_tool rt s tool_name kwargs = Inr r)"
proof (intro conjI allI impI)
  assume "agent s = None"
  then show "call_tool rt s tool_name kwargs = Inr ''Error: LangChain agent not initialized''"
    by (simp add: call_tool_def)
next
  fix a
  assume h: "agent s = Some a \<and> (\<forall>t \<in> set (tools a). name t \<noteq> tool_name)"
  then have "find (\<lambda>t. name t = tool_name) (tools a) = None"
    by (simp add: find_None_iff)
  with h show "call_tool rt s tool_name kwargs
        = Inr (''Error: Tool '' @ [CHR 0x27] @ tool_name @ [CHR 0x27] @ '' not found'')"
    by (simp add: call_tool_def)
next
  show "\<exists>r. call_tool rt s tool_name kwargs = Inr r"
    by (simp add: call_tool_def split: option.splits sum.splits pyval.splits)
qed

theorem call_tool_sentinels_witness:
  "agent (init []) = None
   \<and> call_tool demo_runtime (init []) ''nonexistent_tool'' []
       = Inr ''Error: LangChain agent not initialized''
   \<and> agent ((init [])\<lparr>agent := Some demo_agent\<rparr>) = Some demo_agent
   \<and> list_all (\<lambda>t. name t \<noteq> ''nonexistent_tool'') (tools demo_agent)
   \<and> call_tool demo_runtime ((init [])\<lparr>agent := Some demo_agent\<rparr>) ''nonexistent_tool'' []
       = Inr (''Error: Tool '' @ [CHR 0x27] @ ''nonexistent_tool'' @ [CHR 0x27]
              @ '' not found'')"
proof -
  have n: "agent (init []) = None"
    by (simp add: init_def)
  have a: "agent ((init [])\<lparr>agent := Some demo_agent\<rparr>) = Some demo_agent"
    by simp
  have t: "list_all (\<lambda>t. name t \<noteq> ''nonexistent_tool'') (tools demo_agent)"
    by (simp add: demo_agent_def echo_tool_def)
  then have t': "\<forall>t \<in> set (tools demo_agent). name t \<noteq> ''nonexistent_tool''"
    by (simp add: list_all_iff)
  show ?thesis
    using n a t t'
      call_tool_sentinels [of "init []" demo_runtime "''nonexistent_tool''" "[]"]
      call_tool_sentinels [of "(init [])\<lparr>agent := Some demo_agent\<rparr>" demo_runtime
                             "''nonexistent_tool''" "[]"]
    by simp
qed

end
